theory Spec2Isabelle
  imports Main "HOL-Library.Sublist"
begin

section \<open>JavaScript values\<close>

text \<open>
  The script \<^verbatim>\<open>ajax_listener.js\<close> reads four properties (\<^verbatim>\<open>opts.url\<close>,
  \<^verbatim>\<open>jqXhr.responseJSON\<close>, \<^verbatim>\<open>response.success\<close>, \<^verbatim>\<open>evt.timeStamp\<close>), calls
  \<^verbatim>\<open>indexOf\<close> on one of them and pushes an object literal onto the global
  \<^verbatim>\<open>dataLayer\<close>. The values it can meet are modelled as plain data: the primitives,
  arrays, and objects as association lists in insertion order (the first binding of a
  key is the property). Numbers are the integers, which is all the script distinguishes
  (it only tests a number for being zero); a string is its sequence of code units.
\<close>

datatype jsval =
    JUndefined
  | JNull
  | JBool bool
  | JNum int
  | JStr string
  | JArr "jsval list"
  | JObj "(string \<times> jsval) list"

datatype js_error = TypeError | ReferenceError

text \<open>ToBoolean: what \<^verbatim>\<open>&&\<close>, \<^verbatim>\<open>||\<close> and \<^verbatim>\<open>if\<close> test.\<close>

fun truthy :: "jsval \<Rightarrow> bool" where
  "truthy JUndefined = False"
| "truthy JNull = False"
| "truthy (JBool b) = b"
| "truthy (JNum n) = (n \<noteq> 0)"
| "truthy (JStr s) = (s \<noteq> [])"
| "truthy (JArr xs) = True"
| "truthy (JObj kvs) = True"

text \<open>\<^verbatim>\<open>a || b\<close> on values.\<close>

definition js_or :: "jsval \<Rightarrow> jsval \<Rightarrow> jsval" where
  "js_or a b = (if truthy a then a else b)"

text \<open>
  Property read \<^verbatim>\<open>v.p\<close>. Reading a property of \<^verbatim>\<open>undefined\<close> or \<^verbatim>\<open>null\<close> throws a
  TypeError; a property an object does not have reads as \<^verbatim>\<open>undefined\<close>. Inherited
  built-ins (\<^verbatim>\<open>length\<close>, methods) are not modelled: none of the four names the script
  reads is one.
\<close>

fun get_prop :: "jsval \<Rightarrow> string \<Rightarrow> js_error + jsval" where
  "get_prop JUndefined p = Inl TypeError"
| "get_prop JNull p = Inl TypeError"
| "get_prop (JObj kvs) p = Inr (case map_of kvs p of None \<Rightarrow> JUndefined | Some v \<Rightarrow> v)"
| "get_prop v p = Inr JUndefined"

section \<open>indexOf\<close>

text \<open>
  \<^verbatim>\<open>String.prototype.indexOf\<close>: the position of the first occurrence of the pattern,
  or \<open>-1\<close>. The search walks the string from the left and compares the pattern with the
  text at each position.
\<close>

fun indexOf_from :: "string \<Rightarrow> string \<Rightarrow> nat \<Rightarrow> int" where
  "indexOf_from [] pat i = (if pat = [] then int i else - 1)"
| "indexOf_from (c # cs) pat i =
     (if prefix pat (c # cs) then int i else indexOf_from cs pat (Suc i))"

definition indexOf :: "string \<Rightarrow> string \<Rightarrow> int" where
  "indexOf s pat = indexOf_from s pat 0"

text \<open>
  \<^verbatim>\<open>Array.prototype.indexOf\<close> with a string argument: the first element strictly equal
  to it, which only a string element with the same contents is.
\<close>

fun arr_indexOf_from :: "jsval list \<Rightarrow> string \<Rightarrow> nat \<Rightarrow> int" where
  "arr_indexOf_from [] pat i = - 1"
| "arr_indexOf_from (x # xs) pat i =
     (if x = JStr pat then int i else arr_indexOf_from xs pat (Suc i))"

text \<open>
  The method call \<^verbatim>\<open>v.indexOf(pat)\<close>. Strings and arrays have the method; on
  \<^verbatim>\<open>undefined\<close> and \<^verbatim>\<open>null\<close> the property read throws, and on the other data values
  \<^verbatim>\<open>indexOf\<close> is not a function: a TypeError each time.
\<close>

fun call_indexOf :: "jsval \<Rightarrow> string \<Rightarrow> js_error + int" where
  "call_indexOf (JStr s) pat = Inr (indexOf s pat)"
| "call_indexOf (JArr xs) pat = Inr (arr_indexOf_from xs pat 0)"
| "call_indexOf v pat = Inl TypeError"

section \<open>The ajaxComplete handler\<close>

text \<open>
  The globals the handler touches: the binding \<^verbatim>\<open>dataLayer\<close> (\<open>None\<close> when no such
  global exists) and the lines written with \<^verbatim>\<open>console.log\<close>, oldest first.
\<close>

record globals =
  dataLayer :: "jsval option"
  console :: "string list"

datatype completion = Normal | Throw js_error

definition signup_resource :: string where
  "signup_resource = ''/wp-admin/admin-ajax.php''"

text \<open>
  The condition of line 25,
  \<^verbatim>\<open>requested_url.indexOf(signup_resource) !== -1 && response && response.success === true\<close>,
  evaluated left to right with short circuit.
\<close>

definition signup_succeeded :: "jsval \<Rightarrow> jsval \<Rightarrow> js_error + bool" where
  "signup_succeeded requested_url response =
     (case call_indexOf requested_url signup_resource of
        Inl e \<Rightarrow> Inl e
      | Inr i \<Rightarrow>
          if i \<noteq> - 1 then
            if truthy response then
              (case get_prop response ''success'' of
                 Inl e \<Rightarrow> Inl e
               | Inr s \<Rightarrow> Inr (s = JBool True))
            else Inr False
          else Inr False)"

text \<open>The object literal of lines 27 to 32, given the value read from \<^verbatim>\<open>evt.timeStamp\<close>.\<close>

definition lead_event :: "jsval \<Rightarrow> jsval" where
  "lead_event ts =
     JObj [(''event'', JStr ''lead_form_completed''),
           (''attributes'', JObj [(''time'', js_or ts (JStr ''''))])]"

text \<open>
  \<^verbatim>\<open>dataLayer.push({...})\<close>: the global is resolved first (a ReferenceError when it is
  not there), then the argument is evaluated (reading \<^verbatim>\<open>evt.timeStamp\<close>), then the
  method is called: an array gets the value appended, any other data value has no
  callable \<^verbatim>\<open>push\<close>.
\<close>

definition dataLayer_push :: "jsval \<Rightarrow> globals \<Rightarrow> js_error + globals" where
  "dataLayer_push evt g =
     (case dataLayer g of
        None \<Rightarrow> Inl ReferenceError
      | Some d \<Rightarrow>
          (case get_prop evt ''timeStamp'' of
             Inl e \<Rightarrow> Inl e
           | Inr ts \<Rightarrow>
               (case d of
                  JArr q \<Rightarrow> Inr (g\<lparr>dataLayer := Some (JArr (q @ [lead_event ts]))\<rparr>)
                | _ \<Rightarrow> Inl TypeError)))"

definition console_log :: "string \<Rightarrow> globals \<Rightarrow> globals" where
  "console_log msg g = g\<lparr>console := console g @ [msg]\<rparr>"

text \<open>
  The function bound to \<^verbatim>\<open>ajaxComplete\<close> (lines 19 to 37), with its three arguments and
  the globals before the call; it returns how the call completed and the globals after
  it. A throw leaves the globals as they were at the throw.
\<close>

definition ajaxComplete_handler ::
  "jsval \<Rightarrow> jsval \<Rightarrow> jsval \<Rightarrow> globals \<Rightarrow> completion \<times> globals" where
  "ajaxComplete_handler evt jqXhr opts g =
     (case get_prop opts ''url'' of
        Inl e \<Rightarrow> (Throw e, g)
      | Inr requested_url \<Rightarrow>
     (case get_prop jqXhr ''responseJSON'' of
        Inl e \<Rightarrow> (Throw e, g)
      | Inr response \<Rightarrow>
     (case signup_succeeded requested_url response of
        Inl e \<Rightarrow> (Throw e, g)
      | Inr True \<Rightarrow>
          (case dataLayer_push evt g of
             Inl e \<Rightarrow> (Throw e, g)
           | Inr g' \<Rightarrow> (Normal, console_log ''lead_form_completed'' g'))
      | Inr False \<Rightarrow> (Normal, console_log ''lead_form_not_completed'' g))))"

section \<open>Waiting for jQuery\<close>

text \<open>
  The state of one run of the script: whether \<^verbatim>\<open>$\<close> has been assigned, the number of
  pending \<^verbatim>\<open>setTimeout(waitForjQuery, 500)\<close> callbacks, and the number of handlers the
  script has bound to \<^verbatim>\<open>ajaxComplete\<close>. The field \<open>checks\<close> is a history variable: the
  outcome of the test \<^verbatim>\<open>typeof jQuery !== 'undefined'\<close> of every call of
  \<^verbatim>\<open>waitForjQuery\<close> so far, oldest first.
\<close>

record page =
  dollar :: bool
  timeouts :: nat
  bindings :: nat
  checks :: "bool list"

definition init :: page where
  "init = \<lparr>dollar = False, timeouts = 0, bindings = 0, checks = []\<rparr>"

definition bindToAjax :: "page \<Rightarrow> page" where
  "bindToAjax s = s\<lparr>bindings := Suc (bindings s)\<rparr>"

text \<open>One call of \<^verbatim>\<open>waitForjQuery\<close>, given whether the global \<^verbatim>\<open>jQuery\<close> is defined now.\<close>

definition waitForjQuery :: "bool \<Rightarrow> page \<Rightarrow> page" where
  "waitForjQuery jQuery_defined s =
     (let s1 = s\<lparr>checks := checks s @ [jQuery_defined]\<rparr> in
      if jQuery_defined then bindToAjax (s1\<lparr>dollar := True\<rparr>)
      else s1\<lparr>timeouts := Suc (timeouts s1)\<rparr>)"

text \<open>
  One polling interval passes: every callback that was pending at its start is taken
  off the timer queue and run.
\<close>

definition interval :: "bool \<Rightarrow> page \<Rightarrow> page" where
  "interval jQuery_defined s =
     ((waitForjQuery jQuery_defined) ^^ (timeouts s)) (s\<lparr>timeouts := 0\<rparr>)"

text \<open>
  The page \<open>n\<close> polling intervals after the script was loaded. \<open>jq i\<close> says whether
  \<^verbatim>\<open>jQuery\<close> is defined \<open>i\<close> intervals after the load; line 4 makes the first call at
  the load itself.
\<close>

fun run :: "(nat \<Rightarrow> bool) \<Rightarrow> nat \<Rightarrow> page" where
  "run jq 0 = waitForjQuery (jq 0) init"
| "run jq (Suc n) = interval (jq (Suc n)) (run jq n)"

section \<open>Properties of indexOf\<close>

lemma indexOf_from_found:
  "indexOf_from s pat i \<noteq> - 1 \<longleftrightarrow> sublist pat s"
proof (induction s arbitrary: i)
  case Nil
  show ?case by simp
next
  case (Cons c cs)
  show ?case
  proof (cases "prefix pat (c # cs)")
    case True
    then show ?thesis by (simp add: sublist_Cons_right)
  next
    case False
    then show ?thesis using Cons.IH [of "Suc i"] by (simp add: sublist_Cons_right)
  qed
qed

lemma indexOf_found: "indexOf s pat \<noteq> - 1 \<longleftrightarrow> sublist pat s"
  unfolding indexOf_def by (rule indexOf_from_found)

section \<open>Properties of the handler\<close>

lemma success_true_truthy:
  "get_prop response ''success'' = Inr (JBool True) \<Longrightarrow> truthy response"
  by (cases response) simp_all

lemma signup_succeeded_JStr:
  "signup_succeeded (JStr u) response =
     Inr (sublist signup_resource u \<and> get_prop response ''success'' = Inr (JBool True))"
proof (cases "truthy response")
  case True
  then show ?thesis
    by (cases "get_prop response ''success''")
       (cases response; simp add: signup_succeeded_def indexOf_found)+
next
  case False
  then have "get_prop response ''success'' \<noteq> Inr (JBool True)"
    using success_true_truthy by blast
  with False show ?thesis
    by (simp add: signup_succeeded_def indexOf_found)
qed

lemma handler_not_completed:
  assumes "get_prop opts ''url'' = Inr requested_url"
    and "get_prop jqXhr ''responseJSON'' = Inr response"
    and "signup_succeeded requested_url response = Inr False"
  shows "ajaxComplete_handler evt jqXhr opts g =
           (Normal, g\<lparr>console := console g @ [''lead_form_not_completed'']\<rparr>)"
  using assms by (simp add: ajaxComplete_handler_def console_log_def)

lemma handler_completed:
  assumes "get_prop opts ''url'' = Inr requested_url"
    and "get_prop jqXhr ''responseJSON'' = Inr response"
    and "signup_succeeded requested_url response = Inr True"
    and "get_prop evt ''timeStamp'' = Inr ts"
    and "dataLayer g = Some (JArr q)"
  shows "ajaxComplete_handler evt jqXhr opts g =
           (Normal, g\<lparr>dataLayer := Some (JArr (q @ [lead_event ts])),
                       console := console g @ [''lead_form_completed'']\<rparr>)"
  using assms by (simp add: ajaxComplete_handler_def dataLayer_push_def console_log_def)

lemma handler_throws_unchanged:
  "fst (ajaxComplete_handler evt jqXhr opts g) = Throw e \<Longrightarrow>
   snd (ajaxComplete_handler evt jqXhr opts g) = g"
  by (auto simp: ajaxComplete_handler_def split: sum.splits bool.splits)

text \<open>
  Claim C1, as the code has it. A notification whose URL is a string containing
  \<^verbatim>\<open>/wp-admin/admin-ajax.php\<close> and whose parsed response has \<^verbatim>\<open>success\<close> exactly
  \<^verbatim>\<open>true\<close> makes the handler append exactly one event to the queue (an existing array
  \<^verbatim>\<open>dataLayer\<close>), after the events already there: its name is
  \<^verbatim>\<open>lead_form_completed\<close> and its attributes hold, under \<^verbatim>\<open>time\<close>, the timestamp of the
  notification when that timestamp is truthy, and the empty string when it is not
  (absent or zero). The handler then logs \<^verbatim>\<open>lead_form_completed\<close> and returns.
\<close>

theorem lead_event_queued:
  assumes "get_prop opts ''url'' = Inr (JStr u)"
    and "sublist signup_resource u"
    and "get_prop jqXhr ''responseJSON'' = Inr response"
    and "get_prop response ''success'' = Inr (JBool True)"
    and "get_prop evt ''timeStamp'' = Inr ts"
    and "dataLayer g = Some (JArr q)"
  shows "ajaxComplete_handler evt jqXhr opts g =
           (Normal,
            g\<lparr>dataLayer := Some (JArr (q @
                 [JObj [(''event'', JStr ''lead_form_completed''),
                        (''attributes'',
                           JObj [(''time'', if truthy ts then ts else JStr '''')])]])),
              console := console g @ [''lead_form_completed'']\<rparr>)"
proof -
  have "signup_succeeded (JStr u) response = Inr True"
    using assms(2,4) by (simp add: signup_succeeded_JStr)
  from handler_completed [OF assms(1) assms(3) this assms(5) assms(6)]
  show ?thesis by (simp add: lead_event_def js_or_def)
qed

text \<open>The scenario of the specification: timestamp 1234 on the signup URL.\<close>

theorem lead_event_queued_witness:
  "ajaxComplete_handler
     (JObj [(''timeStamp'', JNum 1234)])
     (JObj [(''responseJSON'', JObj [(''success'', JBool True)])])
     (JObj [(''url'', JStr ''https://site.test/wp-admin/admin-ajax.php?action=signup'')])
     \<lparr>dataLayer = Some (JArr []), console = []\<rparr> =
   (Normal,
    \<lparr>dataLayer = Some (JArr
       [JObj [(''event'', JStr ''lead_form_completed''),
              (''attributes'', JObj [(''time'', JNum 1234)])]]),
     console = [''lead_form_completed'']\<rparr>)"
  using lead_event_queued
    [of "JObj [(''url'', JStr ''https://site.test/wp-admin/admin-ajax.php?action=signup'')]"
        "''https://site.test/wp-admin/admin-ajax.php?action=signup''"
        "JObj [(''responseJSON'', JObj [(''success'', JBool True)])]"
        "JObj [(''success'', JBool True)]"
        "JObj [(''timeStamp'', JNum 1234)]"
        "JNum 1234"
        "\<lparr>dataLayer = Some (JArr []), console = []\<rparr>"
        "[]"]
  by (simp add: signup_resource_def sublist_code)

text \<open>
  With timestamp 0 the queued event does not hold the timestamp: \<^verbatim>\<open>0 || ''\<close> is the
  empty string.
\<close>

theorem zero_timestamp_counterexample:
  "get_prop (JObj [(''timeStamp'', JNum 0)]) ''timeStamp'' = Inr (JNum 0) \<and>
   dataLayer (snd (ajaxComplete_handler
     (JObj [(''timeStamp'', JNum 0)])
     (JObj [(''responseJSON'', JObj [(''success'', JBool True)])])
     (JObj [(''url'', JStr ''https://site.test/wp-admin/admin-ajax.php?action=signup'')])
     \<lparr>dataLayer = Some (JArr []), console = []\<rparr>)) =
   Some (JArr [JObj [(''event'', JStr ''lead_form_completed''),
                     (''attributes'', JObj [(''time'', JStr '''')])]]) \<and>
   JStr '''' \<noteq> JNum 0"
  by (simp add: ajaxComplete_handler_def signup_succeeded_def indexOf_def
      signup_resource_def dataLayer_push_def lead_event_def js_or_def console_log_def)

lemma get_prop_error: "get_prop v p = Inl e \<Longrightarrow> e = TypeError"
  by (cases v) simp_all

lemma handler_dataLayer_cases:
  "dataLayer (snd (ajaxComplete_handler evt jqXhr opts g)) = dataLayer g \<or>
   (\<exists>u response. get_prop opts ''url'' = Inr u \<and>
      get_prop jqXhr ''responseJSON'' = Inr response \<and>
      signup_succeeded u response = Inr True)"
  by (auto simp: ajaxComplete_handler_def console_log_def split: sum.splits bool.splits)

text \<open>
  Claim C2. When the URL is a string containing \<^verbatim>\<open>/wp-admin/admin-ajax.php\<close> but the
  \<^verbatim>\<open>success\<close> field of the parsed response is not exactly the boolean \<^verbatim>\<open>true\<close> (a
  truthy string or number, no such field, or no parsed response at all, for which the
  read of \<open>success\<close> does not even yield a value), the handler logs
  \<^verbatim>\<open>lead_form_not_completed\<close>, returns normally, and leaves \<^verbatim>\<open>dataLayer\<close> as it was.
\<close>

theorem not_success_nothing_queued:
  assumes "get_prop opts ''url'' = Inr (JStr u)"
    and "sublist signup_resource u"
    and "get_prop jqXhr ''responseJSON'' = Inr response"
    and "get_prop response ''success'' \<noteq> Inr (JBool True)"
  shows "ajaxComplete_handler evt jqXhr opts g =
           (Normal, g\<lparr>console := console g @ [''lead_form_not_completed'']\<rparr>) \<and>
         dataLayer (snd (ajaxComplete_handler evt jqXhr opts g)) = dataLayer g"
proof -
  have "signup_succeeded (JStr u) response = Inr False"
    using assms(4) by (simp add: signup_succeeded_JStr)
  from handler_not_completed [OF assms(1) assms(3) this]
  show ?thesis by simp
qed

text \<open>
  On the signup URL: \<^verbatim>\<open>success: false\<close>, the string \<^verbatim>\<open>'true'\<close>, the number 1, and no
  parsed response.
\<close>

theorem not_success_nothing_queued_witness:
  "dataLayer (snd (ajaxComplete_handler
       (JObj [(''timeStamp'', JNum 1234)])
       (JObj [(''responseJSON'', JObj [(''success'', JBool False)])])
       (JObj [(''url'', JStr ''https://site.test/wp-admin/admin-ajax.php?action=signup'')])
       \<lparr>dataLayer = Some (JArr []), console = []\<rparr>)) = Some (JArr []) \<and>
   dataLayer (snd (ajaxComplete_handler
       (JObj [(''timeStamp'', JNum 1234)])
       (JObj [(''responseJSON'', JObj [(''success'', JStr ''true'')])])
       (JObj [(''url'', JStr ''https://site.test/wp-admin/admin-ajax.php?action=signup'')])
       \<lparr>dataLayer = Some (JArr []), console = []\<rparr>)) = Some (JArr []) \<and>
   dataLayer (snd (ajaxComplete_handler
       (JObj [(''timeStamp'', JNum 1234)])
       (JObj [(''responseJSON'', JObj [(''success'', JNum 1)])])
       (JObj [(''url'', JStr ''https://site.test/wp-admin/admin-ajax.php?action=signup'')])
       \<lparr>dataLayer = Some (JArr []), console = []\<rparr>)) = Some (JArr []) \<and>
   dataLayer (snd (ajaxComplete_handler
       (JObj [(''timeStamp'', JNum 1234)])
       (JObj [(''responseJSON'', JUndefined)])
       (JObj [(''url'', JStr ''https://site.test/wp-admin/admin-ajax.php?action=signup'')])
       \<lparr>dataLayer = Some (JArr []), console = []\<rparr>)) = Some (JArr [])"
  using not_success_nothing_queued
      [of "JObj [(''url'', JStr ''https://site.test/wp-admin/admin-ajax.php?action=signup'')]"
          "''https://site.test/wp-admin/admin-ajax.php?action=signup''"
          "JObj [(''responseJSON'', JObj [(''success'', JBool False)])]"
          "JObj [(''success'', JBool False)]"
          "JObj [(''timeStamp'', JNum 1234)]"
          "\<lparr>dataLayer = Some (JArr []), console = []\<rparr>"]
    not_success_nothing_queued
      [of "JObj [(''url'', JStr ''https://site.test/wp-admin/admin-ajax.php?action=signup'')]"
          "''https://site.test/wp-admin/admin-ajax.php?action=signup''"
          "JObj [(''responseJSON'', JObj [(''success'', JStr ''true'')])]"
          "JObj [(''success'', JStr ''true'')]"
          "JObj [(''timeStamp'', JNum 1234)]"
          "\<lparr>dataLayer = Some (JArr []), console = []\<rparr>"]
    not_success_nothing_queued
      [of "JObj [(''url'', JStr ''https://site.test/wp-admin/admin-ajax.php?action=signup'')]"
          "''https://site.test/wp-admin/admin-ajax.php?action=signup''"
          "JObj [(''responseJSON'', JObj [(''success'', JNum 1)])]"
          "JObj [(''success'', JNum 1)]"
          "JObj [(''timeStamp'', JNum 1234)]"
          "\<lparr>dataLayer = Some (JArr []), console = []\<rparr>"]
    not_success_nothing_queued
      [of "JObj [(''url'', JStr ''https://site.test/wp-admin/admin-ajax.php?action=signup'')]"
          "''https://site.test/wp-admin/admin-ajax.php?action=signup''"
          "JObj [(''responseJSON'', JUndefined)]"
          "JUndefined"
          "JObj [(''timeStamp'', JNum 1234)]"
          "\<lparr>dataLayer = Some (JArr []), console = []\<rparr>"]
  by (simp add: signup_resource_def sublist_code)

text \<open>
  Claim C3, as the code has it. The handler has no guard and no \<^verbatim>\<open>try\<close>. It returns
  normally when the URL is a string and, in case the notification matches (substring
  and \<^verbatim>\<open>success\<close> exactly \<^verbatim>\<open>true\<close>), the global \<^verbatim>\<open>dataLayer\<close> is an array. When the URL
  field is absent, \<^verbatim>\<open>requested_url.indexOf\<close> throws a TypeError; when the notification
  matches and there is no global \<^verbatim>\<open>dataLayer\<close>, the push throws a ReferenceError. In
  both cases the fault leaves the handler with nothing logged and nothing queued.
\<close>

theorem handler_completion:
  "(get_prop opts ''url'' = Inr (JStr u) \<and>
    get_prop jqXhr ''responseJSON'' = Inr response \<and>
    get_prop evt ''timeStamp'' = Inr ts \<and>
    (sublist signup_resource u \<and> get_prop response ''success'' = Inr (JBool True)
       \<longrightarrow> (\<exists>q. dataLayer g = Some (JArr q)))
    \<longrightarrow> fst (ajaxComplete_handler evt jqXhr opts g) = Normal) \<and>
   (get_prop opts ''url'' = Inr JUndefined
    \<longrightarrow> ajaxComplete_handler evt jqXhr opts g = (Throw TypeError, g)) \<and>
   (get_prop opts ''url'' = Inr (JStr u) \<and>
    get_prop jqXhr ''responseJSON'' = Inr response \<and>
    sublist signup_resource u \<and> get_prop response ''success'' = Inr (JBool True) \<and>
    dataLayer g = None
    \<longrightarrow> ajaxComplete_handler evt jqXhr opts g = (Throw ReferenceError, g))"
proof (intro conjI impI)
  assume a: "get_prop opts ''url'' = Inr (JStr u) \<and>
    get_prop jqXhr ''responseJSON'' = Inr response \<and>
    get_prop evt ''timeStamp'' = Inr ts \<and>
    (sublist signup_resource u \<and> get_prop response ''success'' = Inr (JBool True)
       \<longrightarrow> (\<exists>q. dataLayer g = Some (JArr q)))"
  show "fst (ajaxComplete_handler evt jqXhr opts g) = Normal"
  proof (cases "sublist signup_resource u \<and> get_prop response ''success'' = Inr (JBool True)")
    case True
    with a obtain q where q: "dataLayer g = Some (JArr q)" by blast
    from True have "signup_succeeded (JStr u) response = Inr True"
      by (simp add: signup_succeeded_JStr)
    with a q show ?thesis
      by (simp add: handler_completed)
  next
    case False
    then have "signup_succeeded (JStr u) response = Inr False"
      by (simp add: signup_succeeded_JStr)
    with a show ?thesis
      by (simp add: handler_not_completed)
  qed
next
  assume "get_prop opts ''url'' = Inr JUndefined"
  then show "ajaxComplete_handler evt jqXhr opts g = (Throw TypeError, g)"
    by (auto simp: ajaxComplete_handler_def signup_succeeded_def
        split: sum.splits dest: get_prop_error)
next
  assume a: "get_prop opts ''url'' = Inr (JStr u) \<and>
    get_prop jqXhr ''responseJSON'' = Inr response \<and>
    sublist signup_resource u \<and> get_prop response ''success'' = Inr (JBool True) \<and>
    dataLayer g = None"
  then have "signup_succeeded (JStr u) response = Inr True"
    by (simp add: signup_succeeded_JStr)
  with a show "ajaxComplete_handler evt jqXhr opts g = (Throw ReferenceError, g)"
    by (simp add: ajaxComplete_handler_def dataLayer_push_def)
qed

theorem handler_completion_witness:
  "fst (ajaxComplete_handler
     (JObj [(''timeStamp'', JNum 1234)])
     (JObj [(''responseJSON'', JObj [(''success'', JBool True)])])
     (JObj [(''url'', JStr ''https://site.test/wp-admin/admin-ajax.php?action=signup'')])
     \<lparr>dataLayer = Some (JArr []), console = []\<rparr>) = Normal \<and>
   ajaxComplete_handler
     (JObj [(''timeStamp'', JNum 1234)])
     (JObj [(''responseJSON'', JObj [(''success'', JBool True)])])
     (JObj [(''type'', JStr ''POST'')])
     \<lparr>dataLayer = Some (JArr []), console = []\<rparr> =
     (Throw TypeError, \<lparr>dataLayer = Some (JArr []), console = []\<rparr>) \<and>
   ajaxComplete_handler
     (JObj [(''timeStamp'', JNum 1234)])
     (JObj [(''responseJSON'', JObj [(''success'', JBool True)])])
     (JObj [(''url'', JStr ''https://site.test/wp-admin/admin-ajax.php?action=signup'')])
     \<lparr>dataLayer = None, console = []\<rparr> =
     (Throw ReferenceError, \<lparr>dataLayer = None, console = []\<rparr>)"
  using handler_completion
    [of "JObj [(''url'', JStr ''https://site.test/wp-admin/admin-ajax.php?action=signup'')]"
        "''https://site.test/wp-admin/admin-ajax.php?action=signup''"
        "JObj [(''responseJSON'', JObj [(''success'', JBool True)])]"
        "JObj [(''success'', JBool True)]"
        "JObj [(''timeStamp'', JNum 1234)]"
        "JNum 1234"
        "\<lparr>dataLayer = Some (JArr []), console = []\<rparr>"]
    handler_completion
    [of "JObj [(''type'', JStr ''POST'')]"
        "[]"
        "JObj [(''responseJSON'', JObj [(''success'', JBool True)])]"
        "JObj [(''success'', JBool True)]"
        "JObj [(''timeStamp'', JNum 1234)]"
        "JNum 1234"
        "\<lparr>dataLayer = Some (JArr []), console = []\<rparr>"]
    handler_completion
    [of "JObj [(''url'', JStr ''https://site.test/wp-admin/admin-ajax.php?action=signup'')]"
        "''https://site.test/wp-admin/admin-ajax.php?action=signup''"
        "JObj [(''responseJSON'', JObj [(''success'', JBool True)])]"
        "JObj [(''success'', JBool True)]"
        "JObj [(''timeStamp'', JNum 1234)]"
        "JNum 1234"
        "\<lparr>dataLayer = None, console = []\<rparr>"]
  by (simp add: signup_resource_def sublist_code)

text \<open>
  The handler throws: on a matching notification when \<^verbatim>\<open>dataLayer\<close> does not exist, and
  on a notification whose options carry no \<^verbatim>\<open>url\<close>.
\<close>

theorem missing_queue_counterexample:
  "fst (ajaxComplete_handler
     (JObj [(''timeStamp'', JNum 1234)])
     (JObj [(''responseJSON'', JObj [(''success'', JBool True)])])
     (JObj [(''url'', JStr ''https://site.test/wp-admin/admin-ajax.php?action=signup'')])
     \<lparr>dataLayer = None, console = []\<rparr>) = Throw ReferenceError \<and>
   fst (ajaxComplete_handler
     (JObj [(''timeStamp'', JNum 1234)])
     (JObj [(''responseJSON'', JObj [(''success'', JBool True)])])
     (JObj [(''type'', JStr ''POST'')])
     \<lparr>dataLayer = Some (JArr []), console = []\<rparr>) = Throw TypeError"
  by (simp add: ajaxComplete_handler_def signup_succeeded_def indexOf_def
      signup_resource_def dataLayer_push_def)

text \<open>
  Claim C4. When the URL is a string that does not contain
  \<^verbatim>\<open>/wp-admin/admin-ajax.php\<close>, \<^verbatim>\<open>dataLayer\<close> after the handler is what it was before,
  whatever the response object and the event are.
\<close>

theorem other_url_nothing_queued:
  assumes "get_prop opts ''url'' = Inr (JStr u)"
    and "\<not> sublist signup_resource u"
  shows "dataLayer (snd (ajaxComplete_handler evt jqXhr opts g)) = dataLayer g"
proof -
  have "signup_succeeded (JStr u) response \<noteq> Inr True" for response
    using assms(2) by (simp add: signup_succeeded_JStr)
  with assms(1) handler_dataLayer_cases [of evt jqXhr opts g]
  show ?thesis by auto
qed

theorem other_url_nothing_queued_witness:
  "dataLayer (snd (ajaxComplete_handler
     (JObj [(''timeStamp'', JNum 1234)])
     (JObj [(''responseJSON'', JObj [(''success'', JBool True)])])
     (JObj [(''url'', JStr ''https://site.test/wp-json/contact'')])
     \<lparr>dataLayer = Some (JArr [JNum 7]), console = []\<rparr>)) = Some (JArr [JNum 7])"
  using other_url_nothing_queued
    [of "JObj [(''url'', JStr ''https://site.test/wp-json/contact'')]"
        "''https://site.test/wp-json/contact''"
        "JObj [(''timeStamp'', JNum 1234)]"
        "JObj [(''responseJSON'', JObj [(''success'', JBool True)])]"
        "\<lparr>dataLayer = Some (JArr [JNum 7]), console = []\<rparr>"]
  by (simp add: signup_resource_def sublist_code)

text \<open>
  Claim C5. For a matching successful notification whose timestamp is absent
  (\<^verbatim>\<open>evt.timeStamp\<close> reads as \<^verbatim>\<open>undefined\<close>) or zero, the event appended to the queue
  has the key \<^verbatim>\<open>time\<close> in its attributes, and the value under it is the empty string.
\<close>

theorem empty_time_without_timestamp:
  assumes "get_prop opts ''url'' = Inr (JStr u)"
    and "sublist signup_resource u"
    and "get_prop jqXhr ''responseJSON'' = Inr response"
    and "get_prop response ''success'' = Inr (JBool True)"
    and "get_prop evt ''timeStamp'' = Inr ts"
    and "ts = JUndefined \<or> ts = JNum 0"
    and "dataLayer g = Some (JArr q)"
  shows "dataLayer (snd (ajaxComplete_handler evt jqXhr opts g)) =
           Some (JArr (q @
             [JObj [(''event'', JStr ''lead_form_completed''),
                    (''attributes'', JObj [(''time'', JStr '''')])]])) \<and>
         get_prop (JObj [(''time'', JStr '''')]) ''time'' = Inr (JStr '''')"
proof -
  have "signup_succeeded (JStr u) response = Inr True"
    using assms(2,4) by (simp add: signup_succeeded_JStr)
  from handler_completed [OF assms(1) assms(3) this assms(5) assms(7)] assms(6)
  show ?thesis by (auto simp: lead_event_def js_or_def)
qed

theorem empty_time_without_timestamp_witness:
  "dataLayer (snd (ajaxComplete_handler
     (JObj [(''type'', JStr ''ajaxComplete'')])
     (JObj [(''responseJSON'', JObj [(''success'', JBool True)])])
     (JObj [(''url'', JStr ''https://site.test/wp-admin/admin-ajax.php?action=signup'')])
     \<lparr>dataLayer = Some (JArr []), console = []\<rparr>)) =
   Some (JArr [JObj [(''event'', JStr ''lead_form_completed''),
                     (''attributes'', JObj [(''time'', JStr '''')])]]) \<and>
   dataLayer (snd (ajaxComplete_handler
     (JObj [(''timeStamp'', JNum 0)])
     (JObj [(''responseJSON'', JObj [(''success'', JBool True)])])
     (JObj [(''url'', JStr ''https://site.test/wp-admin/admin-ajax.php?action=signup'')])
     \<lparr>dataLayer = Some (JArr []), console = []\<rparr>)) =
   Some (JArr [JObj [(''event'', JStr ''lead_form_completed''),
                     (''attributes'', JObj [(''time'', JStr '''')])]])"
  using empty_time_without_timestamp
    [of "JObj [(''url'', JStr ''https://site.test/wp-admin/admin-ajax.php?action=signup'')]"
        "''https://site.test/wp-admin/admin-ajax.php?action=signup''"
        "JObj [(''responseJSON'', JObj [(''success'', JBool True)])]"
        "JObj [(''success'', JBool True)]"
        "JObj [(''type'', JStr ''ajaxComplete'')]"
        "JUndefined"
        "\<lparr>dataLayer = Some (JArr []), console = []\<rparr>"
        "[]"]
    empty_time_without_timestamp
    [of "JObj [(''url'', JStr ''https://site.test/wp-admin/admin-ajax.php?action=signup'')]"
        "''https://site.test/wp-admin/admin-ajax.php?action=signup''"
        "JObj [(''responseJSON'', JObj [(''success'', JBool True)])]"
        "JObj [(''success'', JBool True)]"
        "JObj [(''timeStamp'', JNum 0)]"
        "JNum 0"
        "\<lparr>dataLayer = Some (JArr []), console = []\<rparr>"
        "[]"]
  by (simp add: signup_resource_def sublist_code)

text \<open>
  Claim C6. The test is containment anywhere in the URL: when the part of the URL before
  the first \<^verbatim>\<open>?\<close> does not contain \<^verbatim>\<open>/wp-admin/admin-ajax.php\<close> and the query string
  after it does, a response with \<^verbatim>\<open>success\<close> exactly \<^verbatim>\<open>true\<close> still gets the event
  queued.
\<close>

theorem substring_in_query_string_queues:
  assumes "get_prop opts ''url'' = Inr (JStr (path @ ''?'' @ query))"
    and "\<not> sublist signup_resource path"
    and "sublist signup_resource query"
    and "get_prop jqXhr ''responseJSON'' = Inr response"
    and "get_prop response ''success'' = Inr (JBool True)"
    and "get_prop evt ''timeStamp'' = Inr ts"
    and "dataLayer g = Some (JArr q)"
  shows "ajaxComplete_handler evt jqXhr opts g =
           (Normal, g\<lparr>dataLayer := Some (JArr (q @ [lead_event ts])),
                       console := console g @ [''lead_form_completed'']\<rparr>)"
proof -
  from assms(3) obtain ps ss where "query = ps @ signup_resource @ ss"
    unfolding sublist_def by blast
  then have "path @ ''?'' @ query = (path @ ''?'' @ ps) @ signup_resource @ ss"
    by simp
  then have "sublist signup_resource (path @ ''?'' @ query)"
    unfolding sublist_def by blast
  then have "signup_succeeded (JStr (path @ ''?'' @ query)) response = Inr True"
    using assms(5) by (simp add: signup_succeeded_JStr)
  from handler_completed [OF assms(1) assms(4) this assms(6) assms(7)]
  show ?thesis .
qed

theorem substring_in_query_string_queues_witness:
  "\<not> sublist signup_resource ''https://site.test/track'' \<and>
   ajaxComplete_handler
     (JObj [(''timeStamp'', JNum 1234)])
     (JObj [(''responseJSON'', JObj [(''success'', JBool True)])])
     (JObj [(''url'', JStr ''https://site.test/track?next=/wp-admin/admin-ajax.php'')])
     \<lparr>dataLayer = Some (JArr []), console = []\<rparr> =
   (Normal,
    \<lparr>dataLayer = Some (JArr
       [JObj [(''event'', JStr ''lead_form_completed''),
              (''attributes'', JObj [(''time'', JNum 1234)])]]),
     console = [''lead_form_completed'']\<rparr>)"
  using substring_in_query_string_queues
    [of "JObj [(''url'', JStr ''https://site.test/track?next=/wp-admin/admin-ajax.php'')]"
        "''https://site.test/track''"
        "''next=/wp-admin/admin-ajax.php''"
        "JObj [(''responseJSON'', JObj [(''success'', JBool True)])]"
        "JObj [(''success'', JBool True)]"
        "JObj [(''timeStamp'', JNum 1234)]"
        "JNum 1234"
        "\<lparr>dataLayer = Some (JArr []), console = []\<rparr>"
        "[]"]
  by (simp add: signup_resource_def sublist_code lead_event_def js_or_def)

text \<open>
  Claim C9, as the code has it. A call of the handler that returns normally has written
  exactly one line to the console, one of the two fixed texts. With
  \<^verbatim>\<open>lead_form_not_completed\<close> the queue is unchanged; with \<^verbatim>\<open>lead_form_completed\<close> the
  queue is the old queue, untouched, with the one new event after it. A call that throws
  has written no line and changed nothing.
\<close>

theorem handler_frame:
  "(case ajaxComplete_handler evt jqXhr opts g of
      (Normal, g') \<Rightarrow>
        (console g' = console g @ [''lead_form_not_completed''] \<and>
         dataLayer g' = dataLayer g) \<or>
        (console g' = console g @ [''lead_form_completed''] \<and>
         (\<exists>q ts. dataLayer g = Some (JArr q) \<and> get_prop evt ''timeStamp'' = Inr ts \<and>
                  dataLayer g' = Some (JArr (q @ [lead_event ts]))))
    | (Throw e, g') \<Rightarrow> g' = g)"
  by (auto simp: ajaxComplete_handler_def dataLayer_push_def console_log_def
      split: sum.splits bool.splits option.splits jsval.splits)

text \<open>
  On a queue that already holds an entry: the signup notification keeps the entry and
  logs one line; a request to another URL logs the other line and keeps the queue.
\<close>

theorem handler_frame_witness:
  "ajaxComplete_handler
     (JObj [(''timeStamp'', JNum 1234)])
     (JObj [(''responseJSON'', JObj [(''success'', JBool True)])])
     (JObj [(''url'', JStr ''https://site.test/wp-admin/admin-ajax.php?action=signup'')])
     \<lparr>dataLayer = Some (JArr [JStr ''gtm.js'']), console = [''ready'']\<rparr> =
   (Normal,
    \<lparr>dataLayer = Some (JArr [JStr ''gtm.js'', lead_event (JNum 1234)]),
     console = [''ready'', ''lead_form_completed'']\<rparr>) \<and>
   ajaxComplete_handler
     (JObj [(''timeStamp'', JNum 1234)])
     (JObj [(''responseJSON'', JObj [(''success'', JBool True)])])
     (JObj [(''url'', JStr ''https://site.test/wp-json/contact'')])
     \<lparr>dataLayer = Some (JArr [JStr ''gtm.js'']), console = [''ready'']\<rparr> =
   (Normal,
    \<lparr>dataLayer = Some (JArr [JStr ''gtm.js'']),
     console = [''ready'', ''lead_form_not_completed'']\<rparr>)"
  using handler_frame
    [where evt = "JObj [(''timeStamp'', JNum 1234)]"
       and jqXhr = "JObj [(''responseJSON'', JObj [(''success'', JBool True)])]"
       and opts = "JObj [(''url'', JStr ''https://site.test/wp-admin/admin-ajax.php?action=signup'')]"
       and g = "\<lparr>dataLayer = Some (JArr [JStr ''gtm.js'']), console = [''ready'']\<rparr>"]
    handler_frame
    [where evt = "JObj [(''timeStamp'', JNum 1234)]"
       and jqXhr = "JObj [(''responseJSON'', JObj [(''success'', JBool True)])]"
       and opts = "JObj [(''url'', JStr ''https://site.test/wp-json/contact'')]"
       and g = "\<lparr>dataLayer = Some (JArr [JStr ''gtm.js'']), console = [''ready'']\<rparr>"]
  by (simp add: ajaxComplete_handler_def signup_succeeded_def indexOf_def
      signup_resource_def dataLayer_push_def console_log_def)

text \<open>
  A matching notification without a global \<^verbatim>\<open>dataLayer\<close>: the push throws before
  line 33, and the console stays empty.
\<close>

theorem no_trace_counterexample:
  "console (snd (ajaxComplete_handler
     (JObj [(''timeStamp'', JNum 1234)])
     (JObj [(''responseJSON'', JObj [(''success'', JBool True)])])
     (JObj [(''url'', JStr ''https://site.test/wp-admin/admin-ajax.php?action=signup'')])
     \<lparr>dataLayer = None, console = []\<rparr>)) = []"
  by (simp add: ajaxComplete_handler_def signup_succeeded_def indexOf_def
      signup_resource_def dataLayer_push_def)

text \<open>
  Claim C10. The handler is a function of \<^verbatim>\<open>opts.url\<close>, \<^verbatim>\<open>jqXhr.responseJSON\<close>,
  \<^verbatim>\<open>evt.timeStamp\<close> and the globals before the call: two notifications that agree on
  these three reads give the same completion, the same queue and the same console,
  whatever else the three objects carry.
\<close>

theorem handler_depends_on_three_fields:
  assumes "get_prop opts ''url'' = get_prop opts' ''url''"
    and "get_prop jqXhr ''responseJSON'' = get_prop jqXhr' ''responseJSON''"
    and "get_prop evt ''timeStamp'' = get_prop evt' ''timeStamp''"
  shows "ajaxComplete_handler evt jqXhr opts g = ajaxComplete_handler evt' jqXhr' opts' g"
  by (simp only: ajaxComplete_handler_def dataLayer_push_def assms)

theorem handler_depends_on_three_fields_witness:
  "ajaxComplete_handler
     (JObj [(''type'', JStr ''ajaxComplete''), (''timeStamp'', JNum 1234)])
     (JObj [(''status'', JNum 200), (''responseJSON'', JObj [(''success'', JBool True)])])
     (JObj [(''type'', JStr ''POST''),
            (''url'', JStr ''https://site.test/wp-admin/admin-ajax.php?action=signup'')])
     \<lparr>dataLayer = Some (JArr []), console = []\<rparr> =
   ajaxComplete_handler
     (JObj [(''timeStamp'', JNum 1234), (''isTrigger'', JNum 3)])
     (JObj [(''responseJSON'', JObj [(''success'', JBool True)]),
            (''responseText'', JStr ''{}''), (''status'', JNum 201)])
     (JObj [(''url'', JStr ''https://site.test/wp-admin/admin-ajax.php?action=signup''),
            (''type'', JStr ''GET''), (''data'', JStr ''a=1'')])
     \<lparr>dataLayer = Some (JArr []), console = []\<rparr>"
  using handler_depends_on_three_fields
    [of "JObj [(''type'', JStr ''POST''),
            (''url'', JStr ''https://site.test/wp-admin/admin-ajax.php?action=signup'')]"
        "JObj [(''url'', JStr ''https://site.test/wp-admin/admin-ajax.php?action=signup''),
            (''type'', JStr ''GET''), (''data'', JStr ''a=1'')]"
        "JObj [(''status'', JNum 200), (''responseJSON'', JObj [(''success'', JBool True)])]"
        "JObj [(''responseJSON'', JObj [(''success'', JBool True)]),
            (''responseText'', JStr ''{}''), (''status'', JNum 201)]"
        "JObj [(''type'', JStr ''ajaxComplete''), (''timeStamp'', JNum 1234)]"
        "JObj [(''timeStamp'', JNum 1234), (''isTrigger'', JNum 3)]"
        "\<lparr>dataLayer = Some (JArr []), console = []\<rparr>"]
  by simp

section \<open>Properties of the polling\<close>

lemma interval_idle: "timeouts s = 0 \<Longrightarrow> interval b s = s"
  by (simp add: interval_def)

lemma interval_one:
  "timeouts s = Suc 0 \<Longrightarrow> interval b s = waitForjQuery b (s\<lparr>timeouts := 0\<rparr>)"
  by (simp add: interval_def)

lemma run_invariant:
  "(bindings (run jq n) = 0 \<and> timeouts (run jq n) = Suc 0) \<or>
   (bindings (run jq n) = Suc 0 \<and> timeouts (run jq n) = 0)"
proof (induction n)
  case 0
  show ?case by (simp add: waitForjQuery_def bindToAjax_def init_def Let_def)
next
  case (Suc n)
  then show ?case
  proof
    assume "bindings (run jq n) = 0 \<and> timeouts (run jq n) = Suc 0"
    then show ?thesis
      by (simp add: interval_one waitForjQuery_def bindToAjax_def Let_def)
  next
    assume "bindings (run jq n) = Suc 0 \<and> timeouts (run jq n) = 0"
    then show ?thesis by (simp add: interval_idle)
  qed
qed

lemma run_attached_stays:
  assumes "timeouts (run jq n) = 0"
  shows "run jq (n + m) = run jq n"
proof (induction m)
  case 0
  show ?case by simp
next
  case (Suc m)
  then show ?case using assms by (simp add: interval_idle)
qed

text \<open>
  Claim C7. If \<^verbatim>\<open>jQuery\<close> is undefined at the load and at each of the next \<open>k - 1\<close>
  intervals and defined after \<open>k\<close> intervals, then up to interval \<open>k - 1\<close> every check
  has failed, one callback is pending and nothing is bound; from interval \<open>k\<close> on the
  history of checks is \<open>k\<close> failures followed by one success (attempt \<open>k + 1\<close>), the
  handler is bound once, and no callback is pending: there is no later attempt.
\<close>

theorem polling_attaches_when_ready:
  assumes "\<forall>i<k. \<not> jq i" and "jq k"
  shows "run jq n =
    (if n < k
     then \<lparr>dollar = False, timeouts = 1, bindings = 0, checks = replicate (Suc n) False\<rparr>
     else \<lparr>dollar = True, timeouts = 0, bindings = 1, checks = replicate k False @ [True]\<rparr>)"
proof (induction n)
  case 0
  show ?case
  proof (cases "k = 0")
    case True
    with assms(2) show ?thesis
      by (simp add: waitForjQuery_def bindToAjax_def init_def Let_def)
  next
    case False
    with assms(1) have "\<not> jq 0" by simp
    with False show ?thesis
      by (simp add: waitForjQuery_def init_def Let_def)
  qed
next
  case (Suc n)
  consider (waiting) "Suc n < k" | (ready) "Suc n = k" | (attached) "k \<le> n"
    by linarith
  then show ?case
  proof cases
    case waiting
    with assms(1) have "\<not> jq (Suc n)" by simp
    with waiting Suc show ?thesis
      by (simp add: interval_one waitForjQuery_def Let_def replicate_append_same)
  next
    case ready
    with assms(2) have "jq (Suc n)" by simp
    with ready Suc show ?thesis
      by (auto simp: interval_one waitForjQuery_def bindToAjax_def Let_def
          replicate_append_same)
  next
    case attached
    with Suc show ?thesis by (simp add: interval_idle)
  qed
qed

theorem polling_attaches_when_ready_witness:
  "run (\<lambda>i. 2 \<le> i) 1 =
     \<lparr>dollar = False, timeouts = 1, bindings = 0, checks = [False, False]\<rparr> \<and>
   run (\<lambda>i. 2 \<le> i) 2 =
     \<lparr>dollar = True, timeouts = 0, bindings = 1, checks = [False, False, True]\<rparr> \<and>
   run (\<lambda>i. 2 \<le> i) 7 =
     \<lparr>dollar = True, timeouts = 0, bindings = 1, checks = [False, False, True]\<rparr>"
  using polling_attaches_when_ready [of 2 "\<lambda>i. 2 \<le> i" 1]
    polling_attaches_when_ready [of 2 "\<lambda>i. 2 \<le> i" 2]
    polling_attaches_when_ready [of 2 "\<lambda>i. 2 \<le> i" 7]
  by (simp add: numeral_2_eq_2)

text \<open>
  Claim C8. Whatever the availability of \<^verbatim>\<open>jQuery\<close> over time, every state the script
  reaches has at most one bound handler, and once the handler is bound the state never
  changes again.
\<close>

theorem subscription_installed_at_most_once:
  "bindings (run jq n) \<le> 1 \<and>
   (bindings (run jq n) = 1 \<longrightarrow> run jq (n + m) = run jq n)"
proof -
  from run_invariant [of jq n]
  have "bindings (run jq n) \<le> 1" and "bindings (run jq n) = 1 \<longrightarrow> timeouts (run jq n) = 0"
    by auto
  then show ?thesis by (simp add: run_attached_stays)
qed

theorem subscription_installed_at_most_once_witness:
  "bindings (run (\<lambda>i. 2 \<le> i) 2) = 1 \<and>
   run (\<lambda>i. 2 \<le> i) (2 + 3) = run (\<lambda>i. 2 \<le> i) 2"
proof -
  have b: "bindings (run (\<lambda>i. 2 \<le> i) 2) = 1"
    by (simp add: numeral_2_eq_2 interval_def waitForjQuery_def bindToAjax_def init_def Let_def)
  with subscription_installed_at_most_once [of "\<lambda>i. 2 \<le> i" 2 3]
  show ?thesis by blast
qed

end
